theory Spec2Isabelle
  imports Main "HOL-Library.Sublist"
begin

section \<open>The health-assistant workflow\<close>

text \<open>
  The program builds a two-node graph (\<open>supervisor\<close>, \<open>health_agent\<close>) over a state with one
  channel, \<open>messages\<close>, and reads the stream of state values of one run. The functions below
  follow the program text function by function. What the program does to the outside (the
  logger, the language-model agent) is written as explicit state passing over a \<open>World\<close>.
  Of a log text the ASCII characters are kept, each in its place, and the others are left
  out; no decision of the program reads the log.
\<close>

subsection \<open>Messages and state\<close>

text \<open>The classes of \<open>BaseMessage\<close> the program imports; \<open>instanceof\<close> tests the class.\<close>

datatype MessageClass = HumanMessage | AIMessage | SystemMessage | ToolMessage

type_synonym Metadata = "(string \<times> string) list"

text \<open>
  A message: its class, its content, its \<open>response_metadata\<close> object (always there, empty
  if nothing was given) and the property \<open>__type\<close> that \<open>runWorkflow\<close> prints, which a
  message need not have.
\<close>

record BaseMessage =
  cls :: MessageClass
  content :: string
  response_metadata :: Metadata
  msg_type :: "string option"

text \<open>\<open>interface AgentState { messages: BaseMessage[] }\<close> and \<open>Partial<AgentState>\<close>.\<close>

record AgentState =
  messages :: "BaseMessage list"

record PartialAgentState =
  messages_upd :: "BaseMessage list option"

subsection \<open>The outside world: logger and agent\<close>

text \<open>A thrown JavaScript error, by its text.\<close>

type_synonym exn = string

text \<open>
  The ways a run or the build of the graph fails: the four of the specification, and the
  library's error for a run that does not end within its step limit.
\<close>

datatype error =
  ConfigurationError | ValidationError | RoutingError | TaskExecutionError exn | GraphRecursionError

datatype Level = Debug | Info | Warn | Error

text \<open>The second argument of a logger call, where there is one.\<close>

datatype LogArg = NoArg | ResponseArg AgentState | MetadataArg Metadata | ErrorArg error

type_synonym Log = "(Level \<times> string \<times> LogArg) list"

record 'w World =
  logger :: Log
  agent_world :: 'w

definition logger_log :: "Level \<Rightarrow> string \<Rightarrow> LogArg \<Rightarrow> 'w World \<Rightarrow> 'w World" where
  "logger_log lv txt arg W = W\<lparr>logger := logger W @ [(lv, txt, arg)]\<rparr>"

text \<open>
  \<open>Runnable.invoke\<close>: the agent reads the state, may change its own hidden state, and
  either rejects or answers with an object that has a \<open>messages\<close> field.
\<close>

type_synonym 'w Runnable = "AgentState \<Rightarrow> 'w \<Rightarrow> (exn + AgentState) \<times> 'w"

subsection \<open>Configuration\<close>

text \<open>\<open>process.env\<close> after \<open>dotenv.config\<close> has read \<open>local.env\<close>.\<close>

type_synonym Env = "string \<rightharpoonup> string"

text \<open>JavaScript's \<open>!v\<close> for a value of type \<open>string | undefined\<close>.\<close>

definition falsy :: "string option \<Rightarrow> bool" where
  "falsy v = (case v of None \<Rightarrow> True | Some s \<Rightarrow> s = [])"

record ChatOpenAI =
  apiKey :: string
  model :: string
  baseURL :: string
  temperature :: nat

text \<open>\<open>process.exit(code)\<close> ends the process at once; it is the \<open>Inl\<close> branch.\<close>

datatype Exit = ProcessExit nat

definition initializeEnvironmentAndLLM ::
  "Env \<Rightarrow> 'w World \<Rightarrow> (Exit + ChatOpenAI) \<times> 'w World" where
  "initializeEnvironmentAndLLM env W =
     (let endpointId = env ''ENDPOINT_ID'';
          endpointApiKey = env ''ENDPOINT_API_KEY'';
          arkBaseUrl = env ''ARK_BASE_URL''
      in if falsy endpointId \<or> falsy endpointApiKey \<or> falsy arkBaseUrl
         then (Inl (ProcessExit 1),
               logger_log Error
                 ''[initializeEnvironmentAndLLM]  (ENDPOINT_ID, ENDPOINT_API_KEY, ARK_BASE_URL)''
                 NoArg W)
         else (Inr \<lparr>apiKey = the endpointApiKey, model = the endpointId,
                    baseURL = the arkBaseUrl, temperature = 0\<rparr>,
               logger_log Info ''[initializeEnvironmentAndLLM] ChatOpenAI LLM Initialized.'' NoArg W))"

text \<open>
  \<open>createHealthAgentRunnable\<close>: \<open>createReactAgent\<close> is the library's; it is a parameter that
  turns the model client and the (empty) tool list into a runnable.
\<close>

definition createHealthAgentRunnable ::
  "(ChatOpenAI \<Rightarrow> string list \<Rightarrow> 'w Runnable) \<Rightarrow> ChatOpenAI \<Rightarrow> 'w World
     \<Rightarrow> 'w Runnable \<times> 'w World" where
  "createHealthAgentRunnable createReactAgent llm W =
     (let tools = [];
          W1 = logger_log Info ''[createHealthAgentRunnable] tools.length=0'' NoArg W;
          healthAgentRunnable = createReactAgent llm tools
      in (healthAgentRunnable,
          logger_log Info ''[createHealthAgentRunnable] healthAgentRunnable Initialized.'' NoArg W1))"

subsection \<open>Nodes and router\<close>

definition callHealthAgentNode ::
  "AgentState \<Rightarrow> 'w Runnable \<Rightarrow> 'w World \<Rightarrow> (exn + PartialAgentState) \<times> 'w World" where
  "callHealthAgentNode state healthAgentRunnable W =
     (let W1 = logger_log Debug ''[HealthAgent] ...'' NoArg W;
          (r, w') = healthAgentRunnable state (agent_world W1);
          W2 = W1\<lparr>agent_world := w'\<rparr>
      in case r of
           Inl e \<Rightarrow> (Inl e, W2)
         | Inr response \<Rightarrow>
             (Inr \<lparr>messages_upd = Some (messages response)\<rparr>,
              logger_log Debug ''[HealthAgent] :'' (ResponseArg response) W2))"

text \<open>The target of an edge: a node name, or one of the library's two markers.\<close>

datatype Label = Name string | START | END

text \<open>
  \<open>state.messages[state.messages.length - 1]\<close>: on an empty array the index is \<open>-1\<close> and
  the read gives \<open>undefined\<close>, here \<open>None\<close>.
\<close>

definition lastMessage :: "AgentState \<Rightarrow> BaseMessage option" where
  "lastMessage state =
     (if messages state = [] then None
      else Some (messages state ! (length (messages state) - 1)))"

text \<open>\<open>x instanceof HumanMessage\<close>; false on \<open>undefined\<close>.\<close>

definition instanceof_HumanMessage :: "BaseMessage option \<Rightarrow> bool" where
  "instanceof_HumanMessage x = (case x of None \<Rightarrow> False | Some m \<Rightarrow> cls m = HumanMessage)"

definition routeLogic :: "AgentState \<Rightarrow> 'w World \<Rightarrow> Label \<times> 'w World" where
  "routeLogic state W =
     (let W1 = logger_log Debug ''[Supervisor] Deciding next step...'' NoArg W
      in if instanceof_HumanMessage (lastMessage state)
         then (Name ''health_agent'', logger_log Info ''[Supervisor] Route to Health Agent'' NoArg W1)
         else (END, logger_log Info ''[Supervisor] Route to END'' NoArg W1))"

definition supervisorNode :: "AgentState \<Rightarrow> 'w World \<Rightarrow> PartialAgentState \<times> 'w World" where
  "supervisorNode state W =
     (\<lparr>messages_upd = None\<rparr>, logger_log Debug ''[Supervisor]  Supervisor '' NoArg W)"

subsection \<open>The graph builder\<close>

type_synonym 'w Task = "AgentState \<Rightarrow> 'w World \<Rightarrow> (exn + PartialAgentState) \<times> 'w World"

type_synonym 'w Router = "AgentState \<Rightarrow> 'w World \<Rightarrow> Label \<times> 'w World"

record 'w StateGraph =
  channel_value :: "BaseMessage list \<Rightarrow> BaseMessage list \<Rightarrow> BaseMessage list"
  channel_default :: "unit \<Rightarrow> BaseMessage list"
  nodes :: "(string \<times> 'w Task) list"
  edges :: "(Label \<times> Label) list"
  branches :: "(string \<times> 'w Router \<times> (Label \<times> Label) list) list"

text \<open>The reducer of the \<open>messages\<close> channel, \<open>(x, y) => x.concat(y)\<close>, and its default.\<close>

definition messages_value :: "BaseMessage list \<Rightarrow> BaseMessage list \<Rightarrow> BaseMessage list" where
  "messages_value x y = x @ y"

definition messages_default :: "unit \<Rightarrow> BaseMessage list" where
  "messages_default u = []"

definition new_StateGraph :: "'w StateGraph" where
  "new_StateGraph =
     \<lparr>channel_value = messages_value, channel_default = messages_default,
      nodes = [], edges = [], branches = []\<rparr>"

definition addNode :: "string \<Rightarrow> 'w Task \<Rightarrow> 'w StateGraph \<Rightarrow> 'w StateGraph" where
  "addNode name task g = g\<lparr>nodes := nodes g @ [(name, task)]\<rparr>"

definition addEdge :: "Label \<Rightarrow> Label \<Rightarrow> 'w StateGraph \<Rightarrow> 'w StateGraph" where
  "addEdge src tgt g = g\<lparr>edges := edges g @ [(src, tgt)]\<rparr>"

definition addConditionalEdges ::
  "string \<Rightarrow> 'w Router \<Rightarrow> (Label \<times> Label) list \<Rightarrow> 'w StateGraph \<Rightarrow> 'w StateGraph" where
  "addConditionalEdges src router pathMap g = g\<lparr>branches := branches g @ [(src, router, pathMap)]\<rparr>"

text \<open>The graph of \<open>buildWorkflow\<close> before \<open>compile\<close>, call by call.\<close>

definition workflow :: "'w Runnable \<Rightarrow> 'w StateGraph" where
  "workflow healthAgentRunnable =
     (addEdge (Name ''health_agent'') (Name ''supervisor'')
       (addConditionalEdges ''supervisor'' routeLogic
          [(Name ''health_agent'', Name ''health_agent''), (END, END)]
         (addEdge START (Name ''supervisor'')
           (addNode ''supervisor'' (\<lambda>state W. case supervisorNode state W of (u, W') \<Rightarrow> (Inr u, W'))
             (addNode ''health_agent'' (\<lambda>state. callHealthAgentNode state healthAgentRunnable)
               new_StateGraph)))))"

subsection \<open>The graph executor\<close>

record 'w CompiledStateGraph =
  graph :: "'w StateGraph"
  entry :: string

definition registered :: "'w StateGraph \<Rightarrow> string \<Rightarrow> bool" where
  "registered g n = (n \<in> set (map fst (nodes g)))"

definition valid_source :: "'w StateGraph \<Rightarrow> Label \<Rightarrow> bool" where
  "valid_source g l = (case l of Name n \<Rightarrow> registered g n | START \<Rightarrow> True | END \<Rightarrow> False)"

definition valid_target :: "'w StateGraph \<Rightarrow> Label \<Rightarrow> bool" where
  "valid_target g l = (case l of Name n \<Rightarrow> registered g n | START \<Rightarrow> False | END \<Rightarrow> True)"

text \<open>Modelled from the spec: \<open>compile\<close> of the graph library, which is not part of the program
  text. It fails with a ValidationError if an edge names an unregistered node, if two edge
  sets leave the same node, or if the entry node is not registered; the entry node is the
  target of the edge from \<open>START\<close>.
\<close>

definition compile :: "'w StateGraph \<Rightarrow> error + 'w CompiledStateGraph" where
  "compile g =
     (if \<not> list_all (\<lambda>(a, b). valid_source g a \<and> valid_target g b) (edges g) then Inl ValidationError
      else if \<not> list_all (\<lambda>(src, router, pathMap).
                  registered g src \<and> list_all (\<lambda>(l, t). valid_target g t) pathMap) (branches g)
        then Inl ValidationError
      else if \<not> distinct (map fst (edges g) @ map (\<lambda>b. Name (fst b)) (branches g))
        then Inl ValidationError
      else case map_of (edges g) START of
             Some (Name n) \<Rightarrow> Inr \<lparr>graph = g, entry = n\<rparr>
           | _ \<Rightarrow> Inl ValidationError)"

text \<open>Modelled from the spec: the merge step of the executor, which is not part of the program
  text. A channel the update omits is left untouched; a delta is merged by the reducer.
\<close>

definition merge_update :: "'w StateGraph \<Rightarrow> AgentState \<Rightarrow> PartialAgentState \<Rightarrow> AgentState" where
  "merge_update g state upd =
     (case messages_upd upd of
        None \<Rightarrow> state
      | Some delta \<Rightarrow> state\<lparr>messages := channel_value g (messages state) delta\<rparr>)"

text \<open>Modelled from the spec: the edge table, which is not part of the program text. A plain
  edge gives its target; a conditional edge runs the router and looks the label up, and a
  label without an entry is a RoutingError. The spec names no outcome for a node without
  any edge set; it is made a RoutingError here, and \<open>workflow\<close> has no such node.
\<close>

definition next_node ::
  "'w StateGraph \<Rightarrow> string \<Rightarrow> AgentState \<Rightarrow> 'w World \<Rightarrow> (error + Label) \<times> 'w World" where
  "next_node g cur state W =
     (case map_of (edges g) (Name cur) of
        Some tgt \<Rightarrow> (Inr tgt, W)
      | None \<Rightarrow>
          (case map_of (branches g) cur of
             None \<Rightarrow> (Inl RoutingError, W)
           | Some (router, pathMap) \<Rightarrow>
               (case router state W of
                  (l, W') \<Rightarrow>
                    (case map_of pathMap l of
                       None \<Rightarrow> (Inl RoutingError, W')
                     | Some tgt \<Rightarrow> (Inr tgt, W')))))"

datatype Outcome = Closed | Failed error

text \<open>
  What a consumer that pulls the stream to its end has seen: the nodes whose task unit
  returned, the values the stream yielded, how the stream ended, and the world afterwards.
\<close>

record 'w Run =
  executed :: "string list"
  snapshots :: "AgentState list"
  outcome :: Outcome
  world :: "'w World"

text \<open>
  A step that has run: the node is recorded, and the state after the step is yielded if the
  step's update writes the channel. An update without the channel yields nothing.
\<close>

definition ran :: "string \<Rightarrow> PartialAgentState \<Rightarrow> AgentState \<Rightarrow> 'w Run \<Rightarrow> 'w Run" where
  "ran n upd s r =
     r\<lparr>executed := n # executed r,
       snapshots := (case messages_upd upd of None \<Rightarrow> snapshots r | Some d \<Rightarrow> s # snapshots r)\<rparr>"

definition halt :: "Outcome \<Rightarrow> 'w World \<Rightarrow> 'w Run" where
  "halt out W = \<lparr>executed = [], snapshots = [], outcome = out, world = W\<rparr>"

text \<open>Modelled from the spec: the execution loop of the graph library, which is not part of the
  program text. Repeat: invoke the current node's task unit with the current state; merge
  the returned delta; resolve the next node; stop if it is the terminal marker. What the
  stream yields follows the program's own note on \<open>streamMode: 'values'\<close> (the full value
  at every update of the state) and the worked run of the specification (two snapshots
  where three nodes run): a step yields the state only if its update writes the channel.
  The library ends a run that needs more steps than its recursion limit with a
  GraphRecursionError; the first argument counts the steps that are left. The spec names
  no outcome for a current node that is not registered or a target \<open>START\<close>; \<open>compile\<close>
  excludes both, and they are made a RoutingError.
\<close>

fun execute ::
  "nat \<Rightarrow> 'w StateGraph \<Rightarrow> string \<Rightarrow> AgentState \<Rightarrow> 'w World \<Rightarrow> 'w Run" where
  "execute 0 g cur state W = halt (Failed GraphRecursionError) W"
| "execute (Suc limit) g cur state W =
     (case map_of (nodes g) cur of
        None \<Rightarrow> halt (Failed RoutingError) W
      | Some task \<Rightarrow>
          (case task state W of
             (Inl e, W1) \<Rightarrow> halt (Failed (TaskExecutionError e)) W1
           | (Inr upd, W1) \<Rightarrow>
               (let state' = merge_update g state upd
                in case next_node g cur state' W1 of
                     (Inl e, W2) \<Rightarrow> ran cur upd state' (halt (Failed e) W2)
                   | (Inr END, W2) \<Rightarrow> ran cur upd state' (halt Closed W2)
                   | (Inr START, W2) \<Rightarrow> ran cur upd state' (halt (Failed RoutingError) W2)
                   | (Inr (Name nxt), W2) \<Rightarrow>
                       ran cur upd state' (execute limit g nxt state' W2))))"

text \<open>
  The recursion limit of a run that sets none, as the call in \<open>runWorkflow\<close> does: the
  library's default.
\<close>

definition recursionLimit :: nat where
  "recursionLimit = 25"

text \<open>Modelled from the spec: \<open>app.stream(initialInput, {streamMode: 'values'})\<close>, pulled to its
  end. The input is written to the channel, so the stream yields the input state first,
  then what the steps yield. The input supplies the only channel, so no default is
  materialised. The call sets no recursion limit, so the default holds.
\<close>

definition stream :: "'w CompiledStateGraph \<Rightarrow> AgentState \<Rightarrow> 'w World \<Rightarrow> 'w Run" where
  "stream app initialInput W =
     (let r = execute recursionLimit (graph app) (entry app) initialInput W
      in r\<lparr>snapshots := initialInput # snapshots r\<rparr>)"

subsection \<open>Building and running the workflow\<close>

definition buildWorkflow ::
  "'w Runnable \<Rightarrow> 'w World \<Rightarrow> (error + 'w CompiledStateGraph) \<times> 'w World" where
  "buildWorkflow healthAgentRunnable W =
     (let W1 = logger_log Info ''[buildWorkflow] StateGraph Initialized.'' NoArg W;
          W2 = logger_log Info ''[buildWorkflow] health_agent, supervisor added into StateGraph.''
                 NoArg W1
      in case compile (workflow healthAgentRunnable) of
           Inl e \<Rightarrow> (Inl e, W2)
         | Inr app \<Rightarrow>
             (Inr app, logger_log Info ''[buildWorkflow] LangGraph workflow compiled.'' NoArg W2))"

text \<open>A value in a template literal: a property that is not there prints as \<open>undefined\<close>.\<close>

definition template :: "string option \<Rightarrow> string" where
  "template v = (case v of None \<Rightarrow> ''undefined'' | Some t \<Rightarrow> t)"

text \<open>
  The body of the \<open>for await\<close> loop of \<open>runWorkflow\<close>, for one value of the stream. The
  metadata of a message is an object, which is truthy also when it is empty, so the inner
  \<open>if\<close> always takes its branch.
\<close>

definition log_value :: "AgentState \<Rightarrow> 'w World \<Rightarrow> 'w World" where
  "log_value v W =
     (case lastMessage v of
        None \<Rightarrow> W
      | Some m \<Rightarrow>
          (let W1 = logger_log Info
                      (''[runWorkflow] : '' @ template (msg_type m) @ '', content: '' @ content m)
                      NoArg W
           in logger_log Info ''[runWorkflow] response_metadata:''
                (MetadataArg (response_metadata m)) W1))"

text \<open>
  \<open>runWorkflow\<close>: every value of the stream is logged in turn; a failed stream throws out of
  the loop after the values it has yielded. The log lines of the loop are written after
  those of the nodes here; the two do not read each other.
\<close>

definition runWorkflow ::
  "'w CompiledStateGraph \<Rightarrow> AgentState \<Rightarrow> 'w World \<Rightarrow> 'w Run \<times> 'w World" where
  "runWorkflow app initialInput W =
     (let r = stream app initialInput W
      in (r, fold log_value (snapshots r) (world r)))"

text \<open>The content of the first message of \<open>main\<close>, a three-character greeting, in UTF-8.\<close>

definition greeting :: string where
  "greeting = [CHR 0xE4, CHR 0xBD, CHR 0xA0, CHR 0xE5, CHR 0xA5, CHR 0xBD, CHR 0xE5, CHR 0x95, CHR 0x8A]"

text \<open>What is known of the process when \<open>main\<close> is over.\<close>

record 'w Process =
  exit_code :: nat
  app_built :: bool
  nodes_run :: "string list"
  final :: "'w World"

definition main ::
  "Env \<Rightarrow> (ChatOpenAI \<Rightarrow> string list \<Rightarrow> 'w Runnable) \<Rightarrow> 'w World \<Rightarrow> 'w Process" where
  "main env createReactAgent W =
     (case initializeEnvironmentAndLLM env W of
        (Inl (ProcessExit c), W1) \<Rightarrow>
          \<lparr>exit_code = c, app_built = False, nodes_run = [], final = W1\<rparr>
      | (Inr llm, W1) \<Rightarrow>
          (case createHealthAgentRunnable createReactAgent llm W1 of
             (healthAgentRunnable, W2) \<Rightarrow>
               (case buildWorkflow healthAgentRunnable W2 of
                  (Inl e, W3) \<Rightarrow>
                    \<lparr>exit_code = 1, app_built = False, nodes_run = [],
                     final = logger_log Error '':'' (ErrorArg e) W3\<rparr>
                | (Inr app, W3) \<Rightarrow>
                    (let initialInput = \<lparr>messages =
                           [\<lparr>cls = HumanMessage, content = greeting, response_metadata = [],
                             msg_type = None\<rparr>]\<rparr>
                     in case runWorkflow app initialInput W3 of
                          (r, W4) \<Rightarrow>
                            (case outcome r of
                               Closed \<Rightarrow>
                                 \<lparr>exit_code = 0, app_built = True,
                                  nodes_run = executed r, final = W4\<rparr>
                             | Failed e \<Rightarrow>
                                 \<lparr>exit_code = 1, app_built = True, nodes_run = executed r,
                                  final = logger_log Error '':'' (ErrorArg e) W4\<rparr>)))))"

subsection \<open>Example inputs\<close>

text \<open>The run of the specification's example: one user message, one agent reply.\<close>

definition hi_state :: AgentState where
  "hi_state =
     \<lparr>messages = [\<lparr>cls = HumanMessage, content = ''hi'', response_metadata = [], msg_type = None\<rparr>]\<rparr>"

definition hello_message :: BaseMessage where
  "hello_message =
     \<lparr>cls = AIMessage, content = ''hello'', response_metadata = [], msg_type = None\<rparr>"

definition hello_agent :: "unit Runnable" where
  "hello_agent state w = (Inr \<lparr>messages = [hello_message]\<rparr>, w)"

text \<open>An agent that answers with its input followed by the reply, as a ReAct agent does.\<close>

definition react_agent :: "unit Runnable" where
  "react_agent state w = (Inr \<lparr>messages = messages state @ [hello_message]\<rparr>, w)"

text \<open>
  An agent that counts its calls and answers the first one with an empty list of messages,
  every later one with the reply.
\<close>

definition shy_agent :: "nat Runnable" where
  "shy_agent state n = (Inr \<lparr>messages = (if n = 0 then [] else [hello_message])\<rparr>, Suc n)"

definition quiet_world :: "unit World" where
  "quiet_world = \<lparr>logger = [], agent_world = ()\<rparr>"

definition fresh_world :: "nat World" where
  "fresh_world = \<lparr>logger = [], agent_world = 0\<rparr>"

definition empty_state :: AgentState where
  "empty_state = \<lparr>messages = []\<rparr>"

text \<open>A longer history that also ends in a user message.\<close>

definition followup_state :: AgentState where
  "followup_state =
     \<lparr>messages = [hello_message,
        \<lparr>cls = HumanMessage, content = ''thanks'', response_metadata = [], msg_type = None\<rparr>]\<rparr>"

definition env_complete :: Env where
  "env_complete = [''ENDPOINT_ID'' \<mapsto> ''ep-1'', ''ENDPOINT_API_KEY'' \<mapsto> ''key'',
                   ''ARK_BASE_URL'' \<mapsto> ''https://ark.example/api'']"

definition env_no_key :: Env where
  "env_no_key = [''ENDPOINT_ID'' \<mapsto> ''ep-1'', ''ARK_BASE_URL'' \<mapsto> ''https://ark.example/api'']"

definition env_empty_id :: Env where
  "env_empty_id = [''ENDPOINT_ID'' \<mapsto> [], ''ENDPOINT_API_KEY'' \<mapsto> ''key'',
                   ''ARK_BASE_URL'' \<mapsto> ''https://ark.example/api'']"

definition no_agent :: "ChatOpenAI \<Rightarrow> string list \<Rightarrow> unit Runnable" where
  "no_agent llm tools = hello_agent"

definition hello_app :: "unit CompiledStateGraph" where
  "hello_app = \<lparr>graph = workflow hello_agent, entry = ''supervisor''\<rparr>"

definition shy_app :: "nat CompiledStateGraph" where
  "shy_app = \<lparr>graph = workflow shy_agent, entry = ''supervisor''\<rparr>"

section \<open>Properties\<close>

subsection \<open>The built graph, step by step\<close>

lemma workflow_fields:
  "channel_value (workflow rn) = messages_value"
  "channel_default (workflow rn) = messages_default"
  "nodes (workflow rn) =
     [(''health_agent'', \<lambda>state. callHealthAgentNode state rn),
      (''supervisor'', \<lambda>state W. case supervisorNode state W of (u, W') \<Rightarrow> (Inr u, W'))]"
  "edges (workflow rn) = [(START, Name ''supervisor''), (Name ''health_agent'', Name ''supervisor'')]"
  "branches (workflow rn) =
     [(''supervisor'', routeLogic, [(Name ''health_agent'', Name ''health_agent''), (END, END)])]"
  by (simp_all add: workflow_def addEdge_def addConditionalEdges_def addNode_def new_StateGraph_def)

lemma compile_workflow:
  "compile (workflow rn) = Inr \<lparr>graph = workflow rn, entry = ''supervisor''\<rparr>"
  by (simp add: compile_def workflow_fields valid_source_def valid_target_def registered_def)

lemma routeLogic_fst:
  "fst (routeLogic s W) = (if instanceof_HumanMessage (lastMessage s) then Name ''health_agent'' else END)"
  by (simp add: routeLogic_def Let_def)

lemma human_last_iff:
  "instanceof_HumanMessage (lastMessage s) = (messages s \<noteq> [] \<and> cls (last (messages s)) = HumanMessage)"
  by (simp add: instanceof_HumanMessage_def lastMessage_def last_conv_nth)

lemma agent_world_routeLogic: "agent_world (snd (routeLogic s W)) = agent_world W"
  by (simp add: routeLogic_def Let_def logger_log_def)

lemma agent_world_supervisorNode: "agent_world (snd (supervisorNode s W)) = agent_world W"
  by (simp add: supervisorNode_def logger_log_def)

lemma callHealthAgentNode_Inr:
  "rn s (agent_world W) = (Inr resp, w') \<Longrightarrow>
   callHealthAgentNode s rn W =
     (Inr \<lparr>messages_upd = Some (messages resp)\<rparr>, snd (callHealthAgentNode s rn W))"
  by (simp add: callHealthAgentNode_def Let_def logger_log_def)

lemma next_node_health_agent:
  "next_node (workflow rn) ''health_agent'' s W = (Inr (Name ''supervisor''), W)"
  by (simp add: next_node_def workflow_fields)

lemma next_node_supervisor:
  "next_node (workflow rn) ''supervisor'' s W =
     (if instanceof_HumanMessage (lastMessage s)
      then (Inr (Name ''health_agent''), snd (routeLogic s W))
      else (Inr END, snd (routeLogic s W)))"
  by (simp add: next_node_def workflow_fields routeLogic_def Let_def)

lemma merge_update_workflow:
  "merge_update (workflow rn) s u =
     (case messages_upd u of None \<Rightarrow> s | Some d \<Rightarrow> s\<lparr>messages := messages s @ d\<rparr>)"
  by (simp add: merge_update_def workflow_fields messages_value_def split: option.splits)

text \<open>One pass of the loop at each of the two nodes.\<close>

lemma execute_supervisor:
  "execute (Suc n) (workflow rn) ''supervisor'' s W =
     (let W1 = snd (routeLogic s (snd (supervisorNode s W)))
      in if instanceof_HumanMessage (lastMessage s)
         then ran ''supervisor'' \<lparr>messages_upd = None\<rparr> s (execute n (workflow rn) ''health_agent'' s W1)
         else ran ''supervisor'' \<lparr>messages_upd = None\<rparr> s (halt Closed W1))"
  by (simp add: workflow_fields(3) next_node_supervisor merge_update_workflow supervisorNode_def Let_def)

lemma execute_health_agent:
  "execute (Suc n) (workflow rn) ''health_agent'' s W =
     (case callHealthAgentNode s rn W of
        (Inl e, W1) \<Rightarrow> halt (Failed (TaskExecutionError e)) W1
      | (Inr u, W1) \<Rightarrow>
          ran ''health_agent'' u (merge_update (workflow rn) s u)
            (execute n (workflow rn) ''supervisor'' (merge_update (workflow rn) s u) W1))"
  by (simp add: workflow_fields(3) next_node_health_agent Let_def split: prod.splits sum.splits)

declare execute.simps [simp del]

lemma ran_fields:
  "executed (ran n u s r) = n # executed r"
  "snapshots (ran n \<lparr>messages_upd = None\<rparr> s r) = snapshots r"
  "snapshots (ran n \<lparr>messages_upd = Some d\<rparr> s r) = s # snapshots r"
  "outcome (ran n u s r) = outcome r"
  by (simp_all add: ran_def)

lemma stream_fields:
  "executed (stream app s W) = executed (execute recursionLimit (graph app) (entry app) s W)"
  "snapshots (stream app s W) = s # snapshots (execute recursionLimit (graph app) (entry app) s W)"
  "outcome (stream app s W) = outcome (execute recursionLimit (graph app) (entry app) s W)"
  by (simp_all add: stream_def Let_def)

text \<open>
  The run from a user message through one agent reply: supervisor, health_agent, and
  supervisor again, where the router sees the reply and ends the run.
\<close>

lemma run_three_steps:
  assumes "instanceof_HumanMessage (lastMessage s)"
    and "rn s (agent_world W) = (Inr resp, w')"
    and "messages resp \<noteq> []" and "cls (last (messages resp)) \<noteq> HumanMessage"
  shows "\<exists>W'. execute (Suc (Suc (Suc k))) (workflow rn) ''supervisor'' s W =
      ran ''supervisor'' \<lparr>messages_upd = None\<rparr> s
        (ran ''health_agent'' \<lparr>messages_upd = Some (messages resp)\<rparr>
           (s\<lparr>messages := messages s @ messages resp\<rparr>)
          (ran ''supervisor'' \<lparr>messages_upd = None\<rparr> (s\<lparr>messages := messages s @ messages resp\<rparr>)
             (halt Closed W')))"
proof -
  let ?s' = "s\<lparr>messages := messages s @ messages resp\<rparr>"
  let ?W1 = "snd (routeLogic s (snd (supervisorNode s W)))"
  let ?u = "\<lparr>messages_upd = Some (messages resp)\<rparr>"
  let ?n = "\<lparr>messages_upd = None\<rparr>"
  have aw: "agent_world ?W1 = agent_world W"
    by (simp add: agent_world_routeLogic agent_world_supervisorNode)
  obtain W2 where call: "callHealthAgentNode s rn ?W1 = (Inr ?u, W2)"
    using callHealthAgentNode_Inr[of rn s ?W1 resp w'] assms(2) aw by simp
  have nh: "\<not> instanceof_HumanMessage (lastMessage ?s')"
    using assms(3,4) by (simp add: human_last_iff)
  have m: "merge_update (workflow rn) s ?u = ?s'"
    by (simp add: merge_update_workflow)
  have step3: "execute (Suc k) (workflow rn) ''supervisor'' ?s' W2 =
      ran ''supervisor'' ?n ?s' (halt Closed (snd (routeLogic ?s' (snd (supervisorNode ?s' W2)))))"
    using nh by (simp add: execute_supervisor Let_def)
  have step2: "execute (Suc (Suc k)) (workflow rn) ''health_agent'' s ?W1 =
      ran ''health_agent'' ?u ?s' (ran ''supervisor'' ?n ?s'
         (halt Closed (snd (routeLogic ?s' (snd (supervisorNode ?s' W2))))))"
    by (simp add: execute_health_agent call m step3)
  have "execute (Suc (Suc (Suc k))) (workflow rn) ''supervisor'' s W =
      ran ''supervisor'' ?n s (ran ''health_agent'' ?u ?s' (ran ''supervisor'' ?n ?s'
         (halt Closed (snd (routeLogic ?s' (snd (supervisorNode ?s' W2)))))))"
    using assms(1) by (simp add: execute_supervisor Let_def step2)
  then show ?thesis by blast
qed

lemma recursionLimit_Suc3: "recursionLimit = Suc (Suc (Suc 22))"
  by (simp add: recursionLimit_def)

lemma recursionLimit_Suc5: "recursionLimit = Suc (Suc (Suc (Suc (Suc 20))))"
  by (simp add: recursionLimit_def)

lemma three_step_stream:
  assumes "instanceof_HumanMessage (lastMessage s)"
    and "rn s (agent_world W) = (Inr resp, w')"
    and "messages resp \<noteq> []" and "cls (last (messages resp)) \<noteq> HumanMessage"
    and "app = \<lparr>graph = workflow rn, entry = ''supervisor''\<rparr>"
  shows "executed (stream app s W) = [''supervisor'', ''health_agent'', ''supervisor'']
     \<and> snapshots (stream app s W) = [s, s\<lparr>messages := messages s @ messages resp\<rparr>]
     \<and> outcome (stream app s W) = Closed"
proof -
  from run_three_steps[of s rn W resp w' 22] assms(1-4) obtain W' where
    "execute (Suc (Suc (Suc 22))) (workflow rn) ''supervisor'' s W =
      ran ''supervisor'' \<lparr>messages_upd = None\<rparr> s
        (ran ''health_agent'' \<lparr>messages_upd = Some (messages resp)\<rparr>
           (s\<lparr>messages := messages s @ messages resp\<rparr>)
          (ran ''supervisor'' \<lparr>messages_upd = None\<rparr> (s\<lparr>messages := messages s @ messages resp\<rparr>)
             (halt Closed W')))"
    by blast
  then show ?thesis
    by (simp add: stream_fields assms(5) ran_fields halt_def recursionLimit_Suc3)
qed

text \<open>The example run.\<close>

lemma hello_run:
  "executed (stream hello_app hi_state quiet_world)
      = [''supervisor'', ''health_agent'', ''supervisor'']
   \<and> snapshots (stream hello_app hi_state quiet_world)
      = [hi_state, hi_state\<lparr>messages := messages hi_state @ [hello_message]\<rparr>]
   \<and> outcome (stream hello_app hi_state quiet_world) = Closed"
proof -
  have h1: "instanceof_HumanMessage (lastMessage hi_state)"
    by (simp add: human_last_iff hi_state_def)
  have h2: "hello_agent hi_state (agent_world quiet_world) = (Inr \<lparr>messages = [hello_message]\<rparr>, ())"
    by (simp add: hello_agent_def)
  have h4: "cls (last (messages \<lparr>messages = [hello_message]\<rparr>)) \<noteq> HumanMessage"
    by (simp add: hello_message_def)
  from three_step_stream[of hi_state hello_agent quiet_world "\<lparr>messages = [hello_message]\<rparr>" "()" hello_app]
    h1 h2 h4
  show ?thesis
    by (simp add: hello_app_def)
qed

text \<open>
  The run with the agent that answers its first call with no message: the user message
  stays last, the router sends the run to the agent a second time, and the empty answer
  has its own value in the stream.
\<close>

lemma shy_run:
  "executed (stream shy_app hi_state fresh_world)
      = [''supervisor'', ''health_agent'', ''supervisor'', ''health_agent'', ''supervisor'']
   \<and> snapshots (stream shy_app hi_state fresh_world)
      = [hi_state, hi_state, hi_state\<lparr>messages := messages hi_state @ [hello_message]\<rparr>]
   \<and> outcome (stream shy_app hi_state fresh_world) = Closed"
proof -
  let ?s' = "hi_state\<lparr>messages := messages hi_state @ [hello_message]\<rparr>"
  have h1: "instanceof_HumanMessage (lastMessage hi_state)"
    by (simp add: human_last_iff hi_state_def)
  have h2: "\<not> instanceof_HumanMessage (lastMessage ?s')"
    by (simp add: human_last_iff hello_message_def)
  have c1: "agent_world W = 0 \<Longrightarrow>
      fst (callHealthAgentNode hi_state shy_agent W) = Inr \<lparr>messages_upd = Some []\<rparr>
      \<and> agent_world (snd (callHealthAgentNode hi_state shy_agent W)) = Suc 0" for W :: "nat World"
    by (simp add: callHealthAgentNode_def shy_agent_def Let_def logger_log_def)
  have c2: "agent_world W = Suc 0 \<Longrightarrow>
      fst (callHealthAgentNode hi_state shy_agent W) = Inr \<lparr>messages_upd = Some [hello_message]\<rparr>" for W :: "nat World"
    by (simp add: callHealthAgentNode_def shy_agent_def Let_def logger_log_def)
  have e5: "executed (execute (Suc n) (workflow shy_agent) ''supervisor'' ?s' W) = [''supervisor'']
      \<and> snapshots (execute (Suc n) (workflow shy_agent) ''supervisor'' ?s' W) = []
      \<and> outcome (execute (Suc n) (workflow shy_agent) ''supervisor'' ?s' W) = Closed" for n and W :: "nat World"
    using h2 by (simp add: execute_supervisor Let_def ran_fields halt_def)
  have e4: "executed (execute (Suc (Suc n)) (workflow shy_agent) ''health_agent'' hi_state W)
        = [''health_agent'', ''supervisor'']
      \<and> snapshots (execute (Suc (Suc n)) (workflow shy_agent) ''health_agent'' hi_state W) = [?s']
      \<and> outcome (execute (Suc (Suc n)) (workflow shy_agent) ''health_agent'' hi_state W) = Closed"
    if "agent_world W = Suc 0" for n and W :: "nat World"
  proof -
    obtain x W1 where p: "callHealthAgentNode hi_state shy_agent W = (x, W1)"
      by (cases "callHealthAgentNode hi_state shy_agent W")
    with c2[OF that] have x: "x = Inr \<lparr>messages_upd = Some [hello_message]\<rparr>" by simp
    show ?thesis
      by (simp add: execute_health_agent p x merge_update_workflow ran_fields e5)
  qed
  have e3: "executed (execute (Suc (Suc (Suc n))) (workflow shy_agent) ''supervisor'' hi_state W)
        = [''supervisor'', ''health_agent'', ''supervisor'']
      \<and> snapshots (execute (Suc (Suc (Suc n))) (workflow shy_agent) ''supervisor'' hi_state W) = [?s']
      \<and> outcome (execute (Suc (Suc (Suc n))) (workflow shy_agent) ''supervisor'' hi_state W) = Closed"
    if "agent_world W = Suc 0" for n and W :: "nat World"
    using h1 that
    by (simp add: execute_supervisor Let_def ran_fields e4 agent_world_routeLogic agent_world_supervisorNode)
  have e2: "executed (execute (Suc (Suc (Suc (Suc n)))) (workflow shy_agent) ''health_agent'' hi_state W)
        = [''health_agent'', ''supervisor'', ''health_agent'', ''supervisor'']
      \<and> snapshots (execute (Suc (Suc (Suc (Suc n)))) (workflow shy_agent) ''health_agent'' hi_state W)
        = [hi_state, ?s']
      \<and> outcome (execute (Suc (Suc (Suc (Suc n)))) (workflow shy_agent) ''health_agent'' hi_state W) = Closed"
    if "agent_world W = 0" for n and W :: "nat World"
  proof -
    obtain x W1 where p: "callHealthAgentNode hi_state shy_agent W = (x, W1)"
      by (cases "callHealthAgentNode hi_state shy_agent W")
    with c1[OF that] have x: "x = Inr \<lparr>messages_upd = Some []\<rparr>" and w: "agent_world W1 = Suc 0"
      by simp_all
    have m: "merge_update (workflow shy_agent) hi_state \<lparr>messages_upd = Some []\<rparr> = hi_state"
      by (simp add: merge_update_workflow)
    show ?thesis
      by (simp add: execute_health_agent p x m ran_fields e3[OF w])
  qed
  have e1: "executed (execute (Suc (Suc (Suc (Suc (Suc n))))) (workflow shy_agent) ''supervisor'' hi_state W)
        = [''supervisor'', ''health_agent'', ''supervisor'', ''health_agent'', ''supervisor'']
      \<and> snapshots (execute (Suc (Suc (Suc (Suc (Suc n))))) (workflow shy_agent) ''supervisor'' hi_state W)
        = [hi_state, ?s']
      \<and> outcome (execute (Suc (Suc (Suc (Suc (Suc n))))) (workflow shy_agent) ''supervisor'' hi_state W) = Closed"
    if "agent_world W = 0" for n and W :: "nat World"
    using h1 that
    by (simp add: execute_supervisor Let_def ran_fields e2 agent_world_routeLogic agent_world_supervisorNode)
  have "agent_world fresh_world = 0" by (simp add: fresh_world_def)
  from e1[OF this, of 20] show ?thesis
    by (simp add: stream_fields shy_app_def recursionLimit_Suc5)
qed

text \<open>
  What holds of every run of the workflow, from either node: only the two nodes run, the
  steps of \<open>health_agent\<close> are the ones that yield a value, each value extends the one
  before, and strictly so if the agent never answers with an empty list.
\<close>

lemma execute_workflow_inv:
  "cur = ''supervisor'' \<or> cur = ''health_agent'' \<Longrightarrow>
   length (snapshots (execute n (workflow rn) cur s W))
     = count_list (executed (execute n (workflow rn) cur s W)) ''health_agent''
   \<and> length (executed (execute n (workflow rn) cur s W))
     = count_list (executed (execute n (workflow rn) cur s W)) ''health_agent''
       + count_list (executed (execute n (workflow rn) cur s W)) ''supervisor''
   \<and> successively (\<lambda>a b. prefix (messages a) (messages b))
       (s # snapshots (execute n (workflow rn) cur s W))
   \<and> ((\<forall>s w resp. fst (rn s w) = Inr resp \<longrightarrow> messages resp \<noteq> []) \<longrightarrow>
        successively (\<lambda>a b. strict_prefix (messages a) (messages b))
          (s # snapshots (execute n (workflow rn) cur s W)))"
proof (induction n arbitrary: cur s W)
  case 0
  then show ?case by (simp add: execute.simps(1) halt_def)
next
  case (Suc n)
  from Suc.prems show ?case
  proof
    assume c: "cur = ''supervisor''"
    show ?thesis
    proof (cases "instanceof_HumanMessage (lastMessage s)")
      case True
      from Suc.IH[of "''health_agent''" s "snd (routeLogic s (snd (supervisorNode s W)))"] True
      show ?thesis
        by (simp add: c execute_supervisor Let_def ran_fields)
    next
      case False
      then show ?thesis
        by (simp add: c execute_supervisor Let_def ran_fields halt_def)
    qed
  next
    assume c: "cur = ''health_agent''"
    obtain res W1 where call: "callHealthAgentNode s rn W = (res, W1)"
      by (cases "callHealthAgentNode s rn W")
    show ?thesis
    proof (cases res)
      case (Inl e)
      then show ?thesis
        by (simp add: c execute_health_agent call halt_def)
    next
      case (Inr u)
      obtain r w' where rn: "rn s (agent_world W) = (r, w')" by (cases "rn s (agent_world W)")
      from call Inr rn obtain resp where r: "r = Inr resp"
        and u: "u = \<lparr>messages_upd = Some (messages resp)\<rparr>"
        by (cases r) (auto simp: callHealthAgentNode_def Let_def logger_log_def)
      let ?s' = "s\<lparr>messages := messages s @ messages resp\<rparr>"
      have m: "merge_update (workflow rn) s \<lparr>messages_upd = Some (messages resp)\<rparr> = ?s'"
        by (simp add: merge_update_workflow)
      have p: "prefix (messages s) (messages ?s')" by simp
      have sp: "strict_prefix (messages s) (messages ?s')"
        if "\<forall>s w resp. fst (rn s w) = Inr resp \<longrightarrow> messages resp \<noteq> []"
      proof -
        from that rn r have "messages resp \<noteq> []" by (metis fst_conv)
        then show ?thesis by (simp add: strict_prefix_def)
      qed
      from Suc.IH[of "''supervisor''" ?s' W1] p sp
      show ?thesis
        by (simp add: c execute_health_agent call Inr m u ran_fields)
    qed
  qed
qed

text \<open>
  An agent that answers with no message at all leaves a user message last, and the loop
  goes round until the recursion limit ends the run, whatever the limit.
\<close>

lemma silent_agent_hits_limit:
  assumes "\<And>w. fst (rn s w) = Inr \<lparr>messages = []\<rparr>"
    and "instanceof_HumanMessage (lastMessage s)"
  shows "outcome (execute n (workflow rn) ''supervisor'' s W) = Failed GraphRecursionError
     \<and> outcome (execute n (workflow rn) ''health_agent'' s W) = Failed GraphRecursionError"
proof (induction n arbitrary: W)
  case 0
  show ?case by (simp add: execute.simps(1) halt_def)
next
  case (Suc n)
  have sup: "outcome (execute (Suc n) (workflow rn) ''supervisor'' s W) = Failed GraphRecursionError"
    using assms(2) Suc.IH by (simp add: execute_supervisor Let_def ran_fields)
  obtain r w' where rn: "rn s (agent_world W) = (r, w')" by (cases "rn s (agent_world W)")
  with assms(1)[of "agent_world W"] have r: "r = Inr \<lparr>messages = []\<rparr>" by simp
  obtain W1 where call: "callHealthAgentNode s rn W = (Inr \<lparr>messages_upd = Some []\<rparr>, W1)"
    using callHealthAgentNode_Inr[of rn s W "\<lparr>messages = []\<rparr>" w'] rn r by simp
  have "outcome (execute (Suc n) (workflow rn) ''health_agent'' s W) = Failed GraphRecursionError"
    using Suc.IH by (simp add: execute_health_agent call merge_update_workflow ran_fields)
  with sup show ?case by simp
qed

lemma falsy_iff: "falsy v = (v = None \<or> v = Some [])"
  by (cases v) (simp_all add: falsy_def)

lemma main_config_exit:
  "falsy (env ''ENDPOINT_ID'') \<or> falsy (env ''ENDPOINT_API_KEY'') \<or> falsy (env ''ARK_BASE_URL'') \<Longrightarrow>
   main env cra W =
     \<lparr>exit_code = 1, app_built = False, nodes_run = [],
      final = snd (initializeEnvironmentAndLLM env W)\<rparr>"
  by (simp add: main_def initializeEnvironmentAndLLM_def Let_def)

subsection \<open>The messages channel\<close>

text \<open>
  Claim C3. For every current value \<open>A\<close> and delta \<open>B\<close> of the messages channel, the reducer
  of the built graph returns \<open>A\<close> with the elements of \<open>B\<close> appended in their order: the first
  \<open>length A\<close> elements are \<open>A\<close>, the rest is \<open>B\<close>, the length is the sum of the lengths, and
  every message occurs as often as in \<open>A\<close> and \<open>B\<close> together (nothing is dropped as a
  duplicate, nothing is cut off).
\<close>

theorem messages_channel_appends:
  "channel_value (workflow rn) A B = A @ B
   \<and> take (length A) (channel_value (workflow rn) A B) = A
   \<and> drop (length A) (channel_value (workflow rn) A B) = B
   \<and> length (channel_value (workflow rn) A B) = length A + length B
   \<and> count_list (channel_value (workflow rn) A B) m = count_list A m + count_list B m"
  by (simp add: workflow_fields messages_value_def)

text \<open>
  Claim C8. The reducer of the messages channel is associative and has the channel's
  default, the empty list, as left and right identity; so merging a sequence of deltas one
  after the other from the left gives the same list as grouping them from the right.
\<close>

theorem messages_channel_monoid:
  "channel_value (workflow rn) (channel_default (workflow rn) ()) y = y
   \<and> channel_value (workflow rn) x (channel_default (workflow rn) ()) = x
   \<and> channel_value (workflow rn) (channel_value (workflow rn) x y) z
       = channel_value (workflow rn) x (channel_value (workflow rn) y z)
   \<and> foldl (channel_value (workflow rn)) x ds
       = channel_value (workflow rn) x
           (foldr (channel_value (workflow rn)) ds (channel_default (workflow rn) ()))"
proof -
  have "foldl messages_value x ds = x @ concat ds" for x
    by (induction ds arbitrary: x) (simp_all add: messages_value_def)
  moreover have "foldr messages_value ds [] = concat ds"
    by (induction ds) (simp_all add: messages_value_def)
  ultimately show ?thesis
    by (simp add: workflow_fields messages_value_def messages_default_def)
qed

subsection \<open>The router\<close>

text \<open>
  Claim C2. The router returns the label \<open>health_agent\<close> exactly when the message channel is
  not empty and its last element is a HumanMessage, and the terminal marker \<open>END\<close> in every
  other case. Two states whose last messages have the same class (or which both have none)
  get the same label, whatever their lengths, contents and worlds.
\<close>

theorem routeLogic_by_last_class:
  "fst (routeLogic s W) =
     (if messages s \<noteq> [] \<and> cls (last (messages s)) = HumanMessage
      then Name ''health_agent'' else END)
   \<and> (map_option cls (lastMessage s) = map_option cls (lastMessage t)
        \<longrightarrow> fst (routeLogic s W) = fst (routeLogic t W'))"
proof -
  have tag: "instanceof_HumanMessage x = (map_option cls x = Some HumanMessage)" for x
    by (cases x) (simp_all add: instanceof_HumanMessage_def)
  have "fst (routeLogic s W) =
     (if messages s \<noteq> [] \<and> cls (last (messages s)) = HumanMessage
      then Name ''health_agent'' else END)"
    by (simp add: routeLogic_fst human_last_iff)
  moreover have "map_option cls (lastMessage s) = map_option cls (lastMessage t)
        \<longrightarrow> fst (routeLogic s W) = fst (routeLogic t W')"
    by (simp add: routeLogic_fst tag)
  ultimately show ?thesis by blast
qed

text \<open>
  Witness for C2: a one-message state and a longer one with other contents, both ending in a
  user message, are routed alike.
\<close>

theorem routeLogic_by_last_class_witness:
  "map_option cls (lastMessage hi_state) = map_option cls (lastMessage followup_state)
   \<and> fst (routeLogic hi_state quiet_world) = Name ''health_agent''
   \<and> fst (routeLogic hi_state quiet_world) = fst (routeLogic followup_state quiet_world)"
proof -
  have h: "map_option cls (lastMessage hi_state) = map_option cls (lastMessage followup_state)"
    by (simp add: lastMessage_def hi_state_def followup_state_def)
  have a: "messages hi_state \<noteq> [] \<and> cls (last (messages hi_state)) = HumanMessage"
    by (simp add: hi_state_def)
  note t = routeLogic_by_last_class[of hi_state quiet_world followup_state quiet_world]
  from t[THEN conjunct1] a have e1: "fst (routeLogic hi_state quiet_world) = Name ''health_agent''"
    by simp
  from t[THEN conjunct2, THEN mp, OF h]
  have e2: "fst (routeLogic hi_state quiet_world) = fst (routeLogic followup_state quiet_world)" .
  show ?thesis
    apply (intro conjI)
      apply (rule h)
     apply (rule e1)
    apply (rule e2)
    done
qed

text \<open>
  Claim C6. The router is deterministic: its label is a function of the state alone. Run on
  the same state in any two worlds (any log, any hidden state of the agent), it returns
  the same label.
\<close>

theorem routeLogic_ignores_world: "fst (routeLogic s W1) = fst (routeLogic s W2)"
  by (simp add: routeLogic_fst)

subsection \<open>The supervisor node\<close>

text \<open>
  Claim C5. The supervisor node returns the empty update, which names no channel; merged
  into the state it leaves the state as it was, and the node does not touch the agent.
\<close>

theorem supervisorNode_leaves_state:
  "fst (supervisorNode s W) = \<lparr>messages_upd = None\<rparr>
   \<and> merge_update (workflow rn) s (fst (supervisorNode s W)) = s
   \<and> agent_world (snd (supervisorNode s W)) = agent_world W"
  by (simp add: supervisorNode_def merge_update_def logger_log_def)

text \<open>
  Claim C9. On a state with an empty message channel the read of the last message gives no
  value, the test for a user message fails and the router returns \<open>END\<close>; the run of the
  compiled workflow then closes after the supervisor step alone, with one snapshot (the
  unchanged state), no call of the agent node and no error.
\<close>

theorem empty_channel_ends_run:
  assumes "messages s = []" and "compile (workflow rn) = Inr app"
  shows "lastMessage s = None \<and> \<not> instanceof_HumanMessage (lastMessage s)
     \<and> fst (routeLogic s W) = END
     \<and> executed (stream app s W) = [''supervisor'']
     \<and> snapshots (stream app s W) = [s]
     \<and> outcome (stream app s W) = Closed"
proof -
  have none: "lastMessage s = None" using assms(1) by (simp add: lastMessage_def)
  then have nh: "\<not> instanceof_HumanMessage (lastMessage s)"
    by (simp add: instanceof_HumanMessage_def)
  have app: "app = \<lparr>graph = workflow rn, entry = ''supervisor''\<rparr>"
    using assms(2) by (simp add: compile_workflow)
  have "execute (Suc n) (workflow rn) ''supervisor'' s W =
          ran ''supervisor'' \<lparr>messages_upd = None\<rparr> s
            (halt Closed (snd (routeLogic s (snd (supervisorNode s W)))))" for n
    using nh by (simp add: execute_supervisor Let_def)
  from this[of "Suc (Suc 22)"] show ?thesis using none nh
    by (simp add: routeLogic_fst stream_fields app ran_fields halt_def recursionLimit_Suc3)
qed

text \<open>Witness for C9: the compiled workflow on the state without messages.\<close>

theorem empty_channel_ends_run_witness:
  "messages empty_state = [] \<and> compile (workflow hello_agent) = Inr hello_app
   \<and> fst (routeLogic empty_state quiet_world) = END
   \<and> executed (stream hello_app empty_state quiet_world) = [''supervisor'']
   \<and> snapshots (stream hello_app empty_state quiet_world) = [empty_state]
   \<and> outcome (stream hello_app empty_state quiet_world) = Closed"
proof -
  have h1: "messages empty_state = []" by (simp add: empty_state_def)
  have h2: "compile (workflow hello_agent) = Inr hello_app"
    by (simp add: compile_workflow hello_app_def)
  note t = empty_channel_ends_run[of empty_state hello_agent hello_app quiet_world, OF h1 h2]
  show ?thesis
    apply (intro conjI)
         apply (rule h1)
        apply (rule h2)
       apply (rule t[THEN conjunct2, THEN conjunct2, THEN conjunct1])
      apply (rule t[THEN conjunct2, THEN conjunct2, THEN conjunct2, THEN conjunct1])
     apply (rule t[THEN conjunct2, THEN conjunct2, THEN conjunct2, THEN conjunct2, THEN conjunct1])
    apply (rule t[THEN conjunct2, THEN conjunct2, THEN conjunct2, THEN conjunct2, THEN conjunct2])
    done
qed

subsection \<open>The agent node\<close>

text \<open>
  Claim C10. Whenever the agent node returns an update, the agent runnable has answered, and
  the message channel after the merge is the list before the step followed by the whole
  list of the answer. If the answer holds every message of the list before the step, each
  of those messages then occurs at least twice in the merged channel.
\<close>

theorem health_agent_appends_response:
  assumes "callHealthAgentNode s rn W = (Inr upd, W')"
  shows "\<exists>resp. fst (rn s (agent_world W)) = Inr resp
     \<and> messages (merge_update (workflow rn) s upd) = messages s @ messages resp
     \<and> (set (messages s) \<subseteq> set (messages resp) \<longrightarrow>
          (\<forall>m \<in> set (messages s). 2 \<le> count_list (messages (merge_update (workflow rn) s upd)) m))"
proof -
  obtain r w' where rn: "rn s (agent_world W) = (r, w')" by (cases "rn s (agent_world W)")
  from assms rn obtain resp where r: "r = Inr resp" and upd: "upd = \<lparr>messages_upd = Some (messages resp)\<rparr>"
    by (cases r) (auto simp: callHealthAgentNode_def Let_def logger_log_def)
  have m: "messages (merge_update (workflow rn) s upd) = messages s @ messages resp"
    by (simp add: merge_update_workflow upd)
  have "2 \<le> count_list (messages s @ messages resp) m"
    if "set (messages s) \<subseteq> set (messages resp)" and "m \<in> set (messages s)" for m
  proof -
    have "0 < count_list (messages s) m"
      using that(2) count_list_0_iff[of "messages s" m] by auto
    moreover have "0 < count_list (messages resp) m"
      using that count_list_0_iff[of "messages resp" m] by auto
    ultimately show ?thesis by simp
  qed
  then show ?thesis using rn r m by auto
qed

text \<open>
  Witness for C10: an agent that answers with its input and a reply. The user message is in
  the channel twice after the step.
\<close>

theorem health_agent_appends_response_witness:
  "callHealthAgentNode hi_state react_agent quiet_world =
     (Inr \<lparr>messages_upd = Some (messages hi_state @ [hello_message])\<rparr>,
      snd (callHealthAgentNode hi_state react_agent quiet_world))
   \<and> set (messages hi_state) \<subseteq> set (messages hi_state @ [hello_message])
   \<and> messages (merge_update (workflow react_agent) hi_state
         \<lparr>messages_upd = Some (messages hi_state @ [hello_message])\<rparr>)
       = messages hi_state @ messages hi_state @ [hello_message]
   \<and> hd (messages hi_state) \<in> set (messages hi_state)
   \<and> 2 \<le> count_list (messages (merge_update (workflow react_agent) hi_state
                \<lparr>messages_upd = Some (messages hi_state @ [hello_message])\<rparr>))
            (hd (messages hi_state))"
proof -
  let ?u = "\<lparr>messages_upd = Some (messages hi_state @ [hello_message])\<rparr>"
  have h: "callHealthAgentNode hi_state react_agent quiet_world =
     (Inr ?u, snd (callHealthAgentNode hi_state react_agent quiet_world))"
    by (simp add: callHealthAgentNode_def react_agent_def Let_def)
  have sub: "set (messages hi_state) \<subseteq> set (messages hi_state @ [hello_message])" by auto
  have mem: "hd (messages hi_state) \<in> set (messages hi_state)" by (simp add: hi_state_def)
  from health_agent_appends_response[OF h] obtain resp where
    a: "fst (react_agent hi_state (agent_world quiet_world)) = Inr resp"
    and b: "messages (merge_update (workflow react_agent) hi_state ?u) = messages hi_state @ messages resp"
    and c: "set (messages hi_state) \<subseteq> set (messages resp) \<longrightarrow>
          (\<forall>m \<in> set (messages hi_state). 2 \<le> count_list (messages (merge_update (workflow react_agent) hi_state ?u)) m)"
    by blast
  from a have resp: "messages resp = messages hi_state @ [hello_message]"
    by (auto simp: react_agent_def)
  from c sub resp mem
  have d: "2 \<le> count_list (messages (merge_update (workflow react_agent) hi_state ?u)) (hd (messages hi_state))"
    by simp
  from b resp have e: "messages (merge_update (workflow react_agent) hi_state ?u)
       = messages hi_state @ messages hi_state @ [hello_message]" by simp
  show ?thesis
    apply (intro conjI)
        apply (rule h)
       apply (rule sub)
      apply (rule e)
     apply (rule mem)
    apply (rule d)
    done
qed

subsection \<open>Configuration\<close>

text \<open>
  Claim C7, as stated, fails where a configuration string is present but empty: all three
  variables are set, and \<open>initializeEnvironmentAndLLM\<close> still exits with status 1, since it
  tests the values with \<open>!\<close>.
\<close>

theorem empty_setting_exits:
  "env_empty_id ''ENDPOINT_ID'' \<noteq> None \<and> env_empty_id ''ENDPOINT_API_KEY'' \<noteq> None
   \<and> env_empty_id ''ARK_BASE_URL'' \<noteq> None
   \<and> fst (initializeEnvironmentAndLLM env_empty_id quiet_world) = Inl (ProcessExit 1)"
  by (simp add: env_empty_id_def initializeEnvironmentAndLLM_def falsy_def)

text \<open>
  Claim C7, amended. If any of the three required configuration strings is missing or empty
  at process start, the program exits with status 1 before any graph activity: no graph is
  built and no node runs. If all three are present and not empty, initialisation returns
  the model client built from them.
\<close>

theorem configuration_gate:
  "((\<exists>k \<in> {''ENDPOINT_ID'', ''ENDPOINT_API_KEY'', ''ARK_BASE_URL''}. env k = None \<or> env k = Some [])
      \<longrightarrow> fst (initializeEnvironmentAndLLM env W) = Inl (ProcessExit 1)
          \<and> (\<exists>W'. main env createReactAgent W =
                \<lparr>exit_code = 1, app_built = False, nodes_run = [], final = W'\<rparr>))
   \<and> ((\<forall>k \<in> {''ENDPOINT_ID'', ''ENDPOINT_API_KEY'', ''ARK_BASE_URL''}. \<exists>v. env k = Some v \<and> v \<noteq> [])
      \<longrightarrow> fst (initializeEnvironmentAndLLM env W) =
            Inr \<lparr>apiKey = the (env ''ENDPOINT_API_KEY''), model = the (env ''ENDPOINT_ID''),
                 baseURL = the (env ''ARK_BASE_URL''), temperature = 0\<rparr>)"
proof (intro conjI impI)
  assume "\<exists>k \<in> {''ENDPOINT_ID'', ''ENDPOINT_API_KEY'', ''ARK_BASE_URL''}. env k = None \<or> env k = Some []"
  then have f: "falsy (env ''ENDPOINT_ID'') \<or> falsy (env ''ENDPOINT_API_KEY'') \<or> falsy (env ''ARK_BASE_URL'')"
    by (auto simp: falsy_iff)
  then show "fst (initializeEnvironmentAndLLM env W) = Inl (ProcessExit 1)"
    by (simp add: initializeEnvironmentAndLLM_def Let_def)
  from f show "\<exists>W'. main env createReactAgent W =
                \<lparr>exit_code = 1, app_built = False, nodes_run = [], final = W'\<rparr>"
    by (simp add: main_config_exit)
next
  assume "\<forall>k \<in> {''ENDPOINT_ID'', ''ENDPOINT_API_KEY'', ''ARK_BASE_URL''}. \<exists>v. env k = Some v \<and> v \<noteq> []"
  then have "\<not> (falsy (env ''ENDPOINT_ID'') \<or> falsy (env ''ENDPOINT_API_KEY'') \<or> falsy (env ''ARK_BASE_URL''))"
    by (auto simp: falsy_iff)
  then show "fst (initializeEnvironmentAndLLM env W) =
            Inr \<lparr>apiKey = the (env ''ENDPOINT_API_KEY''), model = the (env ''ENDPOINT_ID''),
                 baseURL = the (env ''ARK_BASE_URL''), temperature = 0\<rparr>"
    by (simp add: initializeEnvironmentAndLLM_def Let_def)
qed

text \<open>
  Witness for C7: an environment without the credential exits at once; a complete one
  gives the client.
\<close>

theorem configuration_gate_witness:
  "env_no_key ''ENDPOINT_API_KEY'' = None
   \<and> fst (initializeEnvironmentAndLLM env_no_key quiet_world) = Inl (ProcessExit 1)
   \<and> (\<exists>W'. main env_no_key no_agent quiet_world =
          \<lparr>exit_code = 1, app_built = False, nodes_run = [], final = W'\<rparr>)
   \<and> env_complete ''ENDPOINT_ID'' = Some ''ep-1''
   \<and> env_complete ''ENDPOINT_API_KEY'' = Some ''key''
   \<and> env_complete ''ARK_BASE_URL'' = Some ''https://ark.example/api''
   \<and> fst (initializeEnvironmentAndLLM env_complete quiet_world) =
        Inr \<lparr>apiKey = the (env_complete ''ENDPOINT_API_KEY''), model = the (env_complete ''ENDPOINT_ID''),
             baseURL = the (env_complete ''ARK_BASE_URL''), temperature = 0\<rparr>"
proof -
  have n: "env_no_key ''ENDPOINT_API_KEY'' = None"
    by (simp add: env_no_key_def)
  then have h1: "\<exists>k \<in> {''ENDPOINT_ID'', ''ENDPOINT_API_KEY'', ''ARK_BASE_URL''}. env_no_key k = None \<or> env_no_key k = Some []"
    by blast
  have c: "env_complete ''ENDPOINT_ID'' = Some ''ep-1''" "env_complete ''ENDPOINT_API_KEY'' = Some ''key''"
    "env_complete ''ARK_BASE_URL'' = Some ''https://ark.example/api''"
    by (simp_all add: env_complete_def)
  then have h2: "\<forall>k \<in> {''ENDPOINT_ID'', ''ENDPOINT_API_KEY'', ''ARK_BASE_URL''}. \<exists>v. env_complete k = Some v \<and> v \<noteq> []"
    by simp
  note t1 = configuration_gate[of env_no_key quiet_world no_agent, THEN conjunct1, THEN mp, OF h1]
  note t2 = configuration_gate[of env_complete quiet_world no_agent, THEN conjunct2, THEN mp, OF h2]
  show ?thesis
    apply (intro conjI)
          apply (rule n)
         apply (rule t1[THEN conjunct1])
        apply (rule t1[THEN conjunct2])
       apply (rule c(1))
      apply (rule c(2))
     apply (rule c(3))
    apply (rule t2)
    done
qed

subsection \<open>Runs of the workflow\<close>



text \<open>
  Claim C4, as stated, fails on two runs. In the example run three nodes are executed and
  the stream yields two snapshots: a supervisor step writes no channel and yields nothing,
  and the input state is yielded first. With an agent that answers its first call with an
  empty list, five nodes are executed and the stream yields three snapshots, the first two
  with the same single message, so the channel does not grow strictly.
\<close>

theorem snapshots_differ_from_steps:
  "compile (workflow hello_agent) = Inr hello_app
   \<and> executed (stream hello_app hi_state quiet_world)
        = [''supervisor'', ''health_agent'', ''supervisor'']
   \<and> map (length \<circ> messages) (snapshots (stream hello_app hi_state quiet_world))
        = [1, 2]
   \<and> outcome (stream hello_app hi_state quiet_world) = Closed
   \<and> compile (workflow shy_agent) = Inr shy_app
   \<and> executed (stream shy_app hi_state fresh_world)
        = [''supervisor'', ''health_agent'', ''supervisor'', ''health_agent'', ''supervisor'']
   \<and> map (length \<circ> messages) (snapshots (stream shy_app hi_state fresh_world))
        = [1, 1, 2]
   \<and> outcome (stream shy_app hi_state fresh_world) = Closed"
  using hello_run shy_run
  by (simp add: compile_workflow hello_app_def shy_app_def hi_state_def)

text \<open>
  Claim C4, amended. Every run of the compiled workflow yields the input state and then one
  snapshot for each executed \<open>health_agent\<close> step, in execution order, and none for a
  supervisor step: a run that executes N nodes yields N + 1 snapshots less the number of
  its supervisor steps. The message channel grows monotonically, each snapshot's message
  list having the list of the snapshot before it as a prefix, and strictly so if the agent
  never answers with an empty list.
\<close>

theorem stream_snapshots_grow:
  assumes "compile (workflow rn) = Inr app"
  shows "length (snapshots (stream app s W))
           = 1 + count_list (executed (stream app s W)) ''health_agent''
     \<and> length (snapshots (stream app s W))
           + count_list (executed (stream app s W)) ''supervisor''
         = 1 + length (executed (stream app s W))
     \<and> hd (snapshots (stream app s W)) = s
     \<and> successively (\<lambda>a b. prefix (messages a) (messages b)) (snapshots (stream app s W))
     \<and> ((\<forall>s w resp. fst (rn s w) = Inr resp \<longrightarrow> messages resp \<noteq> []) \<longrightarrow>
          successively (\<lambda>a b. strict_prefix (messages a) (messages b))
            (snapshots (stream app s W)))"
proof -
  have app: "app = \<lparr>graph = workflow rn, entry = ''supervisor''\<rparr>"
    using assms by (simp add: compile_workflow)
  from execute_workflow_inv[of "''supervisor''" recursionLimit rn s W] show ?thesis
    by (simp add: stream_fields app)
qed

text \<open>
  Witness for C4: the example run, whose agent always answers with one message; three
  nodes, two snapshots, the second strictly longer than the first.
\<close>

theorem stream_snapshots_grow_witness:
  "compile (workflow hello_agent) = Inr hello_app
   \<and> (\<forall>s w. fst (hello_agent s w) = Inr \<lparr>messages = [hello_message]\<rparr>)
   \<and> length (executed (stream hello_app hi_state quiet_world)) = 3
   \<and> count_list (executed (stream hello_app hi_state quiet_world)) ''supervisor'' = 2
   \<and> length (snapshots (stream hello_app hi_state quiet_world)) = 2
   \<and> hd (snapshots (stream hello_app hi_state quiet_world)) = hi_state
   \<and> successively (\<lambda>a b. strict_prefix (messages a) (messages b))
        (snapshots (stream hello_app hi_state quiet_world))"
proof -
  have h1: "compile (workflow hello_agent) = Inr hello_app"
    by (simp add: compile_workflow hello_app_def)
  have h2: "\<forall>s w. fst (hello_agent s w) = Inr \<lparr>messages = [hello_message]\<rparr>"
    by (simp add: hello_agent_def)
  then have h3: "\<forall>s w resp. fst (hello_agent s w) = Inr resp \<longrightarrow> messages resp \<noteq> []"
    by auto
  note t = stream_snapshots_grow[of hello_agent hello_app hi_state quiet_world, OF h1]
  have e: "executed (stream hello_app hi_state quiet_world)
      = [''supervisor'', ''health_agent'', ''supervisor'']"
    using hello_run by simp
  from t e have l: "length (snapshots (stream hello_app hi_state quiet_world)) = 2"
    by simp
  from t have hd: "hd (snapshots (stream hello_app hi_state quiet_world)) = hi_state"
    by simp
  from t h3 have st: "successively (\<lambda>a b. strict_prefix (messages a) (messages b))
        (snapshots (stream hello_app hi_state quiet_world))"
    by blast
  from e have n: "length (executed (stream hello_app hi_state quiet_world)) = 3"
    and c: "count_list (executed (stream hello_app hi_state quiet_world)) ''supervisor'' = 2"
    by simp_all
  show ?thesis
    apply (intro conjI)
          apply (rule h1)
         apply (rule h2)
        apply (rule n)
       apply (rule c)
      apply (rule l)
     apply (rule hd)
    apply (rule st)
    done
qed

end
